theory Spec2Isabelle
  imports Complex_Main
begin

section \<open>GovExpense: the expense calculator (\<^verbatim>\<open>src/expense_calculator.py\<close>)\<close>

text \<open>
  A shallow embedding of class \<open>ExpenseCalculator\<close>. Conventions:
  \<^item> Python \<open>int\<close> is \<open>int\<close>; amounts of money and durations, which the source holds as
    \<open>float\<close> (or as \<open>int\<close> mixed with \<open>float\<close>), are exact rationals \<open>rat\<close>;
  \<^item> the string keys of the source (\<open>"C1-C8"\<close>, \<open>"lump_sum"\<close>, \<open>"single"\<close>, ...) stay
    strings, and the rate tables are maps from strings, so that the defaults of
    \<open>dict.get\<close> and the \<open>else\<close> branches of the string comparisons are part of the model;
  \<^item> an exception is a value \<open>Inl e\<close> of \<open>py_error + 'a\<close>;
  \<^item> a result dictionary is a record; a key that only some branches set is an
    \<open>option\<close> field. Field names carry a prefix naming the result
    (\<open>pd_\<close>, \<open>ac_\<close>, \<open>tr_\<close>, \<open>tx_\<close>, \<open>tm_\<close>, \<open>ml_\<close>) followed by the dictionary key;
  \<^item> the Thai message texts are not reproduced: each distinct message of the source is a
    constructor of \<open>warning\<close> or \<open>remark\<close>, carrying the values formatted into it.
\<close>

subsection \<open>Python helpers\<close>

datatype py_error = KeyError string | NameError string

definition dict_get :: "('k \<rightharpoonup> 'v) \<Rightarrow> 'k \<Rightarrow> 'v \<Rightarrow> 'v" where
  \<comment> \<open>\<open>d.get(k, dflt)\<close>\<close>
  "dict_get d k dflt = (case d k of None \<Rightarrow> dflt | Some v \<Rightarrow> v)"

definition dict_index :: "(string \<rightharpoonup> 'v) \<Rightarrow> string \<Rightarrow> py_error + 'v" where
  \<comment> \<open>\<open>d[k]\<close>, which raises \<open>KeyError\<close> on a missing key\<close>
  "dict_index d k = (case d k of None \<Rightarrow> Inl (KeyError k) | Some v \<Rightarrow> Inr v)"

subsection \<open>Rate tables (lines 10--53)\<close>

definition PER_DIEM_RATES :: "string \<rightharpoonup> rat" where
  "PER_DIEM_RATES = [''C1-C8'' \<mapsto> 240, ''C9-C11'' \<mapsto> 270]"

definition ACCOM_GENERAL_lump_sum :: "string \<rightharpoonup> rat" where
  \<comment> \<open>\<open>ACCOM_GENERAL["lump_sum"]\<close>\<close>
  "ACCOM_GENERAL_lump_sum = [''C1-C8'' \<mapsto> 800, ''C9-C11'' \<mapsto> 1200]"

definition ACCOM_GENERAL_actual :: "string \<rightharpoonup> (string \<rightharpoonup> rat)" where
  \<comment> \<open>\<open>ACCOM_GENERAL["actual"]\<close>\<close>
  "ACCOM_GENERAL_actual =
     [''C1-C8'' \<mapsto> [''single'' \<mapsto> 1500, ''double'' \<mapsto> 850],
      ''C9-C11'' \<mapsto> [''single'' \<mapsto> 2200, ''double'' \<mapsto> 1200]]"

definition ACCOM_TRAINING_PRIVATE :: "string \<rightharpoonup> (string \<rightharpoonup> rat)" where
  "ACCOM_TRAINING_PRIVATE =
     [''C1-C8'' \<mapsto> [''single'' \<mapsto> 1600, ''double'' \<mapsto> 1000],
      ''C9-C11'' \<mapsto> [''single'' \<mapsto> 2700, ''double'' \<mapsto> 1500]]"

definition TRAINING_RATES :: "string \<rightharpoonup> (string \<rightharpoonup> (string \<rightharpoonup> int))" where
  "TRAINING_RATES =
     [''state'' \<mapsto>
        [''Type A'' \<mapsto> [''meal'' \<mapsto> 400, ''snack'' \<mapsto> 35],
         ''Type B'' \<mapsto> [''meal'' \<mapsto> 200, ''snack'' \<mapsto> 35]],
      ''private'' \<mapsto>
        [''Type A'' \<mapsto> [''meal'' \<mapsto> 700, ''snack'' \<mapsto> 50],
         ''Type B'' \<mapsto> [''meal'' \<mapsto> 400, ''snack'' \<mapsto> 50]]]"

subsection \<open>Per diem: \<open>calculate_per_diem\<close> (lines 55--114)\<close>

text \<open>
  A \<open>datetime\<close> has a resolution of one microsecond: it is modelled as the number of
  microseconds from \<open>datetime.min\<close> (year 1, January 1, 00:00:00), so that \<open>datetime.max\<close>
  (year 9999, December 31, 23:59:59.999999) is \<open>datetime_max\<close>.
  \<open>(end_time - start_time).total_seconds()\<close> is the difference in seconds. The source
  holds it as a double, the quotient of the microseconds by \<open>10^6\<close> rounded to the nearest
  double; \<open>total_seconds\<close> is the exact quotient. As \<open>10^6 = 64 * 15625\<close>, the two are equal
  exactly when the difference in microseconds is a multiple of 15625 (the quotient is then
  a number of sixty-fourths of a second below \<open>2^53\<close>, and the floor division, the remainder
  and the comparisons of lines 74--88 are exact on it): this is \<open>exact_window\<close>. Every
  window of whole seconds is one, as are the windows that \<open>app.py\<close> builds from a date and
  a time of day. On other windows the double may differ from the exact quotient.
\<close>

type_synonym datetime = int

definition total_seconds :: "datetime \<Rightarrow> datetime \<Rightarrow> rat" where
  "total_seconds start_time end_time = of_int (end_time - start_time) / 1000000"



definition py_floordiv :: "rat \<Rightarrow> rat \<Rightarrow> int" where
  \<comment> \<open>\<open>int(x // y)\<close> for \<open>y > 0\<close>\<close>
  "py_floordiv x y = \<lfloor>x / y\<rfloor>"

definition py_mod :: "rat \<Rightarrow> rat \<Rightarrow> rat" where
  \<comment> \<open>\<open>x % y\<close> for \<open>y > 0\<close>: the remainder of the floor division\<close>
  "py_mod x y = x - y * of_int \<lfloor>x / y\<rfloor>"

record per_diem_result =
  pd_days_count :: rat
  pd_rate_per_day :: rat
  pd_base_amount :: rat
  pd_provided_meals :: int
  pd_deduction :: rat
  pd_net_amount :: rat

definition calculate_per_diem ::
  "datetime \<Rightarrow> datetime \<Rightarrow> bool \<Rightarrow> string \<Rightarrow> int \<Rightarrow> per_diem_result" where
  "calculate_per_diem start_time end_time is_overnight c_level provided_meals =
     (let secs = total_seconds start_time end_time;
          days_count =
            (if is_overnight then
               (let days = py_floordiv secs (24 * 3600);
                    remainder_seconds = py_mod secs (24 * 3600);
                    days = (if remainder_seconds > 12 * 3600 then days + 1 else days)
                in of_int days)
             else
               (if secs > 12 * 3600 then 1
                else if secs > 6 * 3600 then 1 / 2
                else 0));
          rate = dict_get PER_DIEM_RATES c_level 240;
          total_allowance = days_count * rate;
          deduction = (if provided_meals > 0 then (rate / 3) * of_int provided_meals else 0);
          total_allowance =
            (if provided_meals > 0 then max 0 (total_allowance - deduction)
             else total_allowance)
      in \<lparr> pd_days_count = days_count,
           pd_rate_per_day = rate,
           pd_base_amount = days_count * rate,
           pd_provided_meals = provided_meals,
           pd_deduction = deduction,
           pd_net_amount = total_allowance \<rparr>)"

subsection \<open>Accommodation: \<open>validate_accommodation\<close> (lines 116--350)\<close>

text \<open>
  The messages appended to \<open>warnings\<close>, in the order of their first appearance in the
  source, with the amounts formatted into them:
  \<^item> \<open>AttachReceiptFolio\<close>: lines 210, 271 and 301, the receipt and the folio must be
    attached to the claim;
  \<^item> \<open>ExceedsCeilingDetail actual_cost total_ceiling\<close>: lines 212--215 and 328--331, the
    actual cost exceeds the ceiling and only the ceiling is reimbursed;
  \<^item> \<open>StateVenueNote\<close>: line 245, training at a state venue uses the General ceilings;
  \<^item> \<open>ExceedsCeilingBrief total_ceiling\<close>: line 273, over the ceiling (state venue);
  \<^item> \<open>JuniorSingleRoomNote\<close>: lines 296--299, grade C1-C8 at a private venue must share
    a double room unless a justification is attached.

  The \<open>remark\<close> strings likewise, one constructor for each f-string.
\<close>

datatype warning =
    AttachReceiptFolio
  | ExceedsCeilingDetail rat rat
  | StateVenueNote
  | ExceedsCeilingBrief rat
  | JuniorSingleRoomNote

datatype remark =
    RemarkVehicleSleep
  | RemarkGeneralLumpSum rat int
  | RemarkGeneralActual string rat bool
  | RemarkStateLumpSum rat
  | RemarkStateActual rat
  | RemarkPrivateLumpSum rat string
  | RemarkPrivateActual string rat bool

record accommodation_result =
  ac_type :: string
  ac_nights :: int
  ac_rate_per_night :: rat
  ac_allowed_per_night :: rat
  ac_total_allowed :: "rat option"
  ac_total_ceiling :: "rat option"
  ac_actual_cost :: "rat option"
  ac_reimbursable_amount :: rat
  ac_is_approved :: bool
  ac_room_type :: "string option"
  ac_trip_type :: string
  ac_training_venue :: "string option"
  ac_warnings :: "warning list"
  ac_remark :: remark

definition calc_general_accommodation ::
  "string \<Rightarrow> string \<Rightarrow> int \<Rightarrow> rat \<Rightarrow> string \<Rightarrow> rat \<Rightarrow> warning list
     \<Rightarrow> py_error + accommodation_result" where
  "calc_general_accommodation c_level expense_type nights actual_cost room_type manual_rate
       warnings =
     (if expense_type = ''lump_sum'' then
        (let rate = (if manual_rate > 0 then manual_rate
                     else dict_get ACCOM_GENERAL_lump_sum c_level 800);
             reimbursable = rate * of_int nights
         in Inr \<lparr> ac_type = ''lump_sum'',
                  ac_nights = nights,
                  ac_rate_per_night = rate,
                  ac_allowed_per_night = rate,
                  ac_total_allowed = Some reimbursable,
                  ac_total_ceiling = None,
                  ac_actual_cost = None,
                  ac_reimbursable_amount = reimbursable,
                  ac_is_approved = True,
                  ac_room_type = None,
                  ac_trip_type = ''general'',
                  ac_training_venue = None,
                  ac_warnings = warnings,
                  ac_remark = RemarkGeneralLumpSum rate nights \<rparr>)
      else
        (let ceiling_map = dict_get ACCOM_GENERAL_actual c_level
                             [''single'' \<mapsto> 1500, ''double'' \<mapsto> 850]
         in case dict_index ceiling_map ''single'' of
              Inl e \<Rightarrow> Inl e
            | Inr dflt \<Rightarrow>
               (let ceiling = dict_get ceiling_map room_type dflt;
                    total_ceiling = ceiling * of_int nights;
                    reimbursable = min actual_cost total_ceiling;
                    is_approved = (actual_cost \<le> total_ceiling);
                    warnings = warnings @ [AttachReceiptFolio];
                    warnings = (if \<not> is_approved
                                then warnings @ [ExceedsCeilingDetail actual_cost total_ceiling]
                                else warnings)
                in Inr \<lparr> ac_type = ''actual'',
                         ac_nights = nights,
                         ac_rate_per_night = ceiling,
                         ac_allowed_per_night = ceiling,
                         ac_total_allowed = None,
                         ac_total_ceiling = Some total_ceiling,
                         ac_actual_cost = Some actual_cost,
                         ac_reimbursable_amount = reimbursable,
                         ac_is_approved = is_approved,
                         ac_room_type = Some room_type,
                         ac_trip_type = ''general'',
                         ac_training_venue = None,
                         ac_warnings = warnings,
                         ac_remark = RemarkGeneralActual room_type ceiling is_approved \<rparr>)))"

definition calc_training_accommodation ::
  "string \<Rightarrow> string \<Rightarrow> int \<Rightarrow> rat \<Rightarrow> string \<Rightarrow> string \<Rightarrow> rat \<Rightarrow> warning list
     \<Rightarrow> py_error + accommodation_result" where
  "calc_training_accommodation c_level expense_type nights actual_cost room_type
       training_venue manual_rate warnings =
     (if training_venue = ''state'' then
        (let warnings = warnings @ [StateVenueNote]
         in if expense_type = ''lump_sum'' then
              (let rate = (if manual_rate > 0 then manual_rate
                           else dict_get ACCOM_GENERAL_lump_sum c_level 800);
                   reimbursable = rate * of_int nights
               in Inr \<lparr> ac_type = ''lump_sum'',
                        ac_nights = nights,
                        ac_rate_per_night = rate,
                        ac_allowed_per_night = rate,
                        ac_total_allowed = Some reimbursable,
                        ac_total_ceiling = None,
                        ac_actual_cost = None,
                        ac_reimbursable_amount = reimbursable,
                        ac_is_approved = True,
                        ac_room_type = None,
                        ac_trip_type = ''training'',
                        ac_training_venue = Some ''state'',
                        ac_warnings = warnings,
                        ac_remark = RemarkStateLumpSum rate \<rparr>)
            else
              (let ceiling_map = dict_get ACCOM_GENERAL_actual c_level
                                   [''single'' \<mapsto> 1500, ''double'' \<mapsto> 850]
               in case dict_index ceiling_map ''single'' of
                    Inl e \<Rightarrow> Inl e
                  | Inr dflt \<Rightarrow>
                     (let ceiling = dict_get ceiling_map room_type dflt;
                          total_ceiling = ceiling * of_int nights;
                          reimbursable = min actual_cost total_ceiling;
                          is_approved = (actual_cost \<le> total_ceiling);
                          warnings = warnings @ [AttachReceiptFolio];
                          warnings = (if \<not> is_approved
                                      then warnings @ [ExceedsCeilingBrief total_ceiling]
                                      else warnings)
                      in Inr \<lparr> ac_type = ''actual'',
                               ac_nights = nights,
                               ac_rate_per_night = ceiling,
                               ac_allowed_per_night = ceiling,
                               ac_total_allowed = None,
                               ac_total_ceiling = Some total_ceiling,
                               ac_actual_cost = Some actual_cost,
                               ac_reimbursable_amount = reimbursable,
                               ac_is_approved = is_approved,
                               ac_room_type = Some room_type,
                               ac_trip_type = ''training'',
                               ac_training_venue = Some ''state'',
                               ac_warnings = warnings,
                               ac_remark = RemarkStateActual ceiling \<rparr>)))
      else
        (let ceiling_map = dict_get ACCOM_TRAINING_PRIVATE c_level
                             [''single'' \<mapsto> 1600, ''double'' \<mapsto> 1000]
         in case dict_index ceiling_map ''double'' of
              Inl e \<Rightarrow> Inl e
            | Inr dflt \<Rightarrow>
               (let ceiling = dict_get ceiling_map room_type dflt;
                    warnings = (if c_level = ''C1-C8'' \<and> room_type = ''single''
                                then warnings @ [JuniorSingleRoomNote]
                                else warnings);
                    warnings = warnings @ [AttachReceiptFolio]
                in if expense_type = ''lump_sum'' then
                     (let rate = ceiling;
                          reimbursable = rate * of_int nights
                      in Inr \<lparr> ac_type = ''lump_sum'',
                               ac_nights = nights,
                               ac_rate_per_night = rate,
                               ac_allowed_per_night = rate,
                               ac_total_allowed = Some reimbursable,
                               ac_total_ceiling = None,
                               ac_actual_cost = None,
                               ac_reimbursable_amount = reimbursable,
                               ac_is_approved = True,
                               ac_room_type = Some room_type,
                               ac_trip_type = ''training'',
                               ac_training_venue = Some ''private'',
                               ac_warnings = warnings,
                               ac_remark = RemarkPrivateLumpSum rate room_type \<rparr>)
                   else
                     (let total_ceiling = ceiling * of_int nights;
                          reimbursable = min actual_cost total_ceiling;
                          is_approved = (actual_cost \<le> total_ceiling);
                          warnings = (if \<not> is_approved
                                      then warnings @ [ExceedsCeilingDetail actual_cost total_ceiling]
                                      else warnings)
                      in Inr \<lparr> ac_type = ''actual'',
                               ac_nights = nights,
                               ac_rate_per_night = ceiling,
                               ac_allowed_per_night = ceiling,
                               ac_total_allowed = None,
                               ac_total_ceiling = Some total_ceiling,
                               ac_actual_cost = Some actual_cost,
                               ac_reimbursable_amount = reimbursable,
                               ac_is_approved = is_approved,
                               ac_room_type = Some room_type,
                               ac_trip_type = ''training'',
                               ac_training_venue = Some ''private'',
                               ac_warnings = warnings,
                               ac_remark = RemarkPrivateActual room_type ceiling is_approved \<rparr>))))"

definition validate_accommodation ::
  "string \<Rightarrow> string \<Rightarrow> int \<Rightarrow> rat \<Rightarrow> string \<Rightarrow> bool \<Rightarrow> rat \<Rightarrow> string \<Rightarrow> string
     \<Rightarrow> py_error + accommodation_result" where
  "validate_accommodation c_level expense_type nights actual_cost room_type is_vehicle_sleep
       manual_rate trip_type training_venue =
     (let warnings = []
      in if is_vehicle_sleep then
           Inr \<lparr> ac_type = ''vehicle_sleep'',
                 ac_nights = 0,
                 ac_rate_per_night = 0,
                 ac_allowed_per_night = 0,
                 ac_total_allowed = Some 0,
                 ac_total_ceiling = None,
                 ac_actual_cost = None,
                 ac_reimbursable_amount = 0,
                 ac_is_approved = True,
                 ac_room_type = None,
                 ac_trip_type = trip_type,
                 ac_training_venue = None,
                 ac_warnings = [],
                 ac_remark = RemarkVehicleSleep \<rparr>
         else if trip_type = ''general'' then
           calc_general_accommodation c_level expense_type nights actual_cost room_type
             manual_rate warnings
         else
           calc_training_accommodation c_level expense_type nights actual_cost room_type
             training_venue manual_rate warnings)"

subsection \<open>Private vehicle: \<open>calculate_transportation\<close> (lines 352--367)\<close>

record transportation_result =
  tr_type :: string
  tr_distance_km :: rat
  tr_rate :: rat
  tr_reimbursable_amount :: rat

definition calculate_transportation :: "string \<Rightarrow> rat \<Rightarrow> transportation_result" where
  "calculate_transportation vehicle_type distance_km =
     (let rate = (if vehicle_type = ''private_car'' then 4 else 2);
          amount = distance_km * rate
      in \<lparr> tr_type = vehicle_type,
           tr_distance_km = distance_km,
           tr_rate = rate,
           tr_reimbursable_amount = amount \<rparr>)"

subsection \<open>Taxi route cap: \<open>validate_taxi\<close> (lines 369--390)\<close>

text \<open>
  \<open>limit\<close> starts as \<open>float('inf')\<close>: it is a \<open>rat option\<close>, \<open>None\<close> being infinity, and
  \<open>min_limit\<close> is \<open>min(actual_cost, limit)\<close> on it. In the result the key \<open>"limit"\<close> holds
  the number, or the string \<open>"Actual"\<close> (here \<open>None\<close>) when the limit is infinite.
\<close>

definition min_limit :: "rat \<Rightarrow> rat option \<Rightarrow> rat" where
  "min_limit x limit = (case limit of None \<Rightarrow> x | Some l \<Rightarrow> min x l)"

record taxi_result =
  tx_type :: string
  tx_route_type :: string
  tx_actual_cost :: rat
  tx_limit :: "rat option"
  tx_reimbursable_amount :: rat

definition validate_taxi :: "string \<Rightarrow> rat \<Rightarrow> taxi_result" where
  "validate_taxi route_type actual_cost =
     (let limit = None;
          limit = (if route_type = ''cross_bkk'' then Some 600
                   else if route_type = ''cross_other'' then Some 500
                   else limit);
          reimbursable = min_limit actual_cost limit
      in \<lparr> tx_type = ''taxi'',
           tx_route_type = route_type,
           tx_actual_cost = actual_cost,
           tx_limit = limit,
           tx_reimbursable_amount = reimbursable \<rparr>)"

subsection \<open>Taxi meter: \<open>calculate_taxi_meter\<close> (lines 392--465)\<close>

text \<open>
  Lines 404--453 compute the local variables \<open>fare\<close>, \<open>surcharges\<close> and \<open>total_fare\<close>;
  \<open>taxi_meter_locals\<close> is their value when line 453 has run. The nested \<open>if\<close>s of the
  distance bands are kept as they are written.
\<close>

definition taxi_meter_locals :: "rat \<Rightarrow> int \<Rightarrow> bool \<Rightarrow> bool \<Rightarrow> rat \<times> rat \<times> rat" where
  "taxi_meter_locals distance_km traffic_minutes booking_fee airport_surcharge =
     (let fare = 35;
          remaining_dist = distance_km - 1;
          fare =
            (if remaining_dist \<le> 0 then 35
             else
               (let dist_step = min remaining_dist 9;
                    fare = fare + dist_step * (13 / 2);
                    remaining_dist = remaining_dist - dist_step
                in if remaining_dist > 0 then
                     (let dist_step = min remaining_dist 10;
                          fare = fare + dist_step * 7;
                          remaining_dist = remaining_dist - dist_step
                      in if remaining_dist > 0 then
                           (let dist_step = min remaining_dist 20;
                                fare = fare + dist_step * 8;
                                remaining_dist = remaining_dist - dist_step
                            in if remaining_dist > 0 then
                                 (let dist_step = min remaining_dist 20;
                                      fare = fare + dist_step * (17 / 2);
                                      remaining_dist = remaining_dist - dist_step
                                  in if remaining_dist > 0 then
                                       (let dist_step = min remaining_dist 20;
                                            fare = fare + dist_step * 9;
                                            remaining_dist = remaining_dist - dist_step
                                        in if remaining_dist > 0 then
                                             fare + remaining_dist * (21 / 2)
                                           else fare)
                                     else fare)
                               else fare)
                         else fare)
                   else fare));
          fare = fare + of_int traffic_minutes * 3;
          surcharges = 0;
          surcharges = (if booking_fee then surcharges + 20 else surcharges);
          surcharges = (if airport_surcharge then surcharges + 50 else surcharges);
          total_fare = fare + surcharges
      in (fare, surcharges, total_fare))"

text \<open>
  The \<open>return\<close> of lines 459--465 builds the result dictionary and reads the name
  \<open>fare_distance\<close> at line 461. No statement of the function assigns that name, it is
  not a parameter, and the module defines no global of that name: the name is unbound
  (\<open>None\<close>), and reading it raises \<open>NameError\<close>.
\<close>

definition fare_distance :: "rat option" where
  "fare_distance = None"

record taxi_meter_result =
  tm_distance_km :: rat
  tm_fare_distance :: rat
  tm_fare_traffic :: rat
  tm_surcharges :: rat
  tm_total_fare :: rat

definition calculate_taxi_meter ::
  "rat \<Rightarrow> int \<Rightarrow> bool \<Rightarrow> bool \<Rightarrow> py_error + taxi_meter_result" where
  "calculate_taxi_meter distance_km traffic_minutes booking_fee airport_surcharge =
     (case taxi_meter_locals distance_km traffic_minutes booking_fee airport_surcharge of
        (fare, surcharges, total_fare) \<Rightarrow>
          (case fare_distance of
             None \<Rightarrow> Inl (NameError ''fare_distance'')
           | Some fare_distance_value \<Rightarrow>
               Inr \<lparr> tm_distance_km = distance_km,
                     tm_fare_distance = fare_distance_value,
                     tm_fare_traffic = of_int traffic_minutes * 3,
                     tm_surcharges = surcharges,
                     tm_total_fare = total_fare \<rparr>))"

subsection \<open>Training meals: \<open>calculate_training_meal_allowance\<close> (lines 467--494)\<close>

record meal_allowance_result =
  ml_training_type :: string
  ml_venue :: string
  ml_meal_rate :: int
  ml_snack_rate :: int
  ml_meal_count :: int
  ml_snack_count :: int
  ml_meal_total :: int
  ml_snack_total :: int
  ml_grand_total :: int

definition calculate_training_meal_allowance ::
  "string \<Rightarrow> string \<Rightarrow> int \<Rightarrow> int \<Rightarrow> py_error + meal_allowance_result" where
  "calculate_training_meal_allowance c_level venue meal_count snack_count =
     (let training_type = (if c_level = ''C9-C11'' then ''Type A'' else ''Type B'')
      in case dict_index TRAINING_RATES venue of
           Inl e \<Rightarrow> Inl e
         | Inr by_type \<Rightarrow>
        (case dict_index by_type training_type of
           Inl e \<Rightarrow> Inl e
         | Inr rates \<Rightarrow>
        (case dict_index rates ''meal'' of
           Inl e \<Rightarrow> Inl e
         | Inr meal_rate \<Rightarrow>
        (case dict_index rates ''snack'' of
           Inl e \<Rightarrow> Inl e
         | Inr snack_rate \<Rightarrow>
            (let meal_total = meal_count * meal_rate;
                 snack_total = snack_count * snack_rate;
                 grand_total = meal_total + snack_total
             in Inr \<lparr> ml_training_type = training_type,
                      ml_venue = venue,
                      ml_meal_rate = meal_rate,
                      ml_snack_rate = snack_rate,
                      ml_meal_count = meal_count,
                      ml_snack_count = snack_count,
                      ml_meal_total = meal_total,
                      ml_snack_total = snack_total,
                      ml_grand_total = grand_total \<rparr>)))))"

subsection \<open>Classification of warnings\<close>

fun is_exceeds_ceiling :: "warning \<Rightarrow> bool" where
  \<comment> \<open>the two messages saying that the actual cost is over the ceiling (lines 212, 273, 328)\<close>
  "is_exceeds_ceiling (ExceedsCeilingDetail a c) = True"
| "is_exceeds_ceiling (ExceedsCeilingBrief c) = True"
| "is_exceeds_ceiling w = False"

subsection \<open>The ceiling tables and the actual-cost rule as the specification words them\<close>

text \<open>
  These three definitions are not taken from the source. They restate section 4.2 of the
  specification (General actual-cost ceilings, private-venue ceilings, and the rule
  "reimbursable is the smaller of actual cost and ceiling times nights, approved iff the
  actual cost is within it, the receipt warning always, an exceeds-ceiling warning iff
  not approved"), so that the source's dictionaries and branches can be compared
  with them.
\<close>

definition spec_ceiling_general :: "string \<Rightarrow> string \<Rightarrow> rat" where
  "spec_ceiling_general grade room =
     (if grade = ''C1-C8'' then (if room = ''single'' then 1500 else 850)
      else (if room = ''single'' then 2200 else 1200))"

definition spec_ceiling_private :: "string \<Rightarrow> string \<Rightarrow> rat" where
  "spec_ceiling_private grade room =
     (if grade = ''C1-C8'' then (if room = ''single'' then 1600 else 1000)
      else (if room = ''single'' then 2700 else 1500))"

definition actual_cost_rule :: "rat \<Rightarrow> int \<Rightarrow> rat \<Rightarrow> accommodation_result \<Rightarrow> bool" where
  "actual_cost_rule nightly_ceiling nights actual_cost r =
     (ac_rate_per_night r = nightly_ceiling
      \<and> ac_reimbursable_amount r = min actual_cost (nightly_ceiling * of_int nights)
      \<and> ac_is_approved r = (actual_cost \<le> nightly_ceiling * of_int nights)
      \<and> AttachReceiptFolio \<in> set (ac_warnings r)
      \<and> (\<exists>w \<in> set (ac_warnings r). is_exceeds_ceiling w) = (\<not> ac_is_approved r))"

subsection \<open>The taxi tariff ladder as the specification words it\<close>

text \<open>
  Not taken from the source: section 4.4 of the specification. \<open>spec_band x lo len\<close> is
  the part of the distance \<open>x\<close> (kilometres after the first) that falls in the band
  starting at \<open>lo\<close> of length \<open>len\<close>; \<open>spec_ladder x\<close> bills the bands of length 9, 10,
  20, 20 and 20 at 6.5, 7, 8, 8.5 and 9 per kilometre and what is beyond them (beyond 79
  kilometres after the first, that is beyond a distance of 80 kilometres) at 10.5.
\<close>

definition spec_band :: "rat \<Rightarrow> rat \<Rightarrow> rat \<Rightarrow> rat" where
  "spec_band x lo len = max 0 (min (x - lo) len)"

definition spec_ladder :: "rat \<Rightarrow> rat" where
  "spec_ladder x = 13 / 2 * spec_band x 0 9 + 7 * spec_band x 9 10 + 8 * spec_band x 19 20
                 + 17 / 2 * spec_band x 39 20 + 9 * spec_band x 59 20 + 21 / 2 * max 0 (x - 79)"

section \<open>Verified properties\<close>

subsection \<open>Accommodation\<close>

text \<open>Unfolding the accommodation functions and their tables.\<close>

lemmas accom_defs = validate_accommodation_def calc_general_accommodation_def
  calc_training_accommodation_def ACCOM_GENERAL_actual_def ACCOM_GENERAL_lump_sum_def
  ACCOM_TRAINING_PRIVATE_def dict_index_def dict_get_def Let_def

text \<open>
  Claim C1. For the two grades and the two room types, any nights and any actual cost, each
  of the three actual-cost branches (General; Training at a state venue; Training at a
  private venue) returns a result with: the nightly rate equal to the table ceiling of
  the grade and room type (the General table for the first two, the private-venue table
  for the third); reimbursable amount = min(actual cost, ceiling * nights); approved iff
  actual cost <= ceiling * nights; the attach-receipt warning in the warnings; and an
  exceeds-ceiling warning in the warnings iff the result is not approved.
\<close>

theorem actual_cost_branches:
  assumes "c_level \<in> {''C1-C8'', ''C9-C11''}" and "room_type \<in> {''single'', ''double''}"
  shows "(\<exists>r. validate_accommodation c_level ''actual'' nights actual_cost room_type False
                manual_rate ''general'' training_venue = Inr r
            \<and> actual_cost_rule (spec_ceiling_general c_level room_type) nights actual_cost r)
       \<and> (\<exists>r. validate_accommodation c_level ''actual'' nights actual_cost room_type False
                manual_rate ''training'' ''state'' = Inr r
            \<and> actual_cost_rule (spec_ceiling_general c_level room_type) nights actual_cost r)
       \<and> (\<exists>r. validate_accommodation c_level ''actual'' nights actual_cost room_type False
                manual_rate ''training'' ''private'' = Inr r
            \<and> actual_cost_rule (spec_ceiling_private c_level room_type) nights actual_cost r)"
  using assms
  by (elim insertE emptyE; simp add: accom_defs actual_cost_rule_def spec_ceiling_general_def
        spec_ceiling_private_def)

theorem actual_cost_branches_witness:
  "''C1-C8'' \<in> {''C1-C8'', ''C9-C11''} \<and> ''single'' \<in> {''single'', ''double''}
   \<and> (\<exists>r. validate_accommodation ''C1-C8'' ''actual'' 2 3500 ''single'' False 0 ''general''
               ''private'' = Inr r
        \<and> ac_reimbursable_amount r = 3000 \<and> \<not> ac_is_approved r
        \<and> AttachReceiptFolio \<in> set (ac_warnings r)
        \<and> (\<exists>w \<in> set (ac_warnings r). is_exceeds_ceiling w))"
  using actual_cost_branches [of "''C1-C8''" "''single''" 2 3500 0 "''private''"]
  by (auto simp: actual_cost_rule_def spec_ceiling_general_def)

text \<open>
  Claim C2. Whatever the grade, method, nights, actual cost, room type, manual rate, trip
  type and venue are, with \<open>is_vehicle_sleep\<close> true \<open>validate_accommodation\<close> returns a
  result whose reimbursable amount is 0, whose nights are 0 and which is approved.
\<close>

theorem vehicle_sleep_overrides:
  "\<exists>r. validate_accommodation c_level expense_type nights actual_cost room_type True
            manual_rate trip_type training_venue = Inr r
       \<and> ac_reimbursable_amount r = 0 \<and> ac_nights r = 0 \<and> ac_is_approved r"
  by (simp add: validate_accommodation_def)

text \<open>
  Claim C5. For the two grades and the two room types, any number of nights and any manual
  rate, a Training trip at a private venue paid as a lump sum returns the private-venue
  ceiling of that grade and room type as the nightly rate (C1-C8: single 1600, double
  1000; C9-C11: single 2700, double 1500), reimburses rate times nights and is approved;
  the result is the same for every other manual rate.
\<close>

theorem training_private_lump_sum:
  assumes "c_level \<in> {''C1-C8'', ''C9-C11''}" and "room_type \<in> {''single'', ''double''}"
  shows "\<exists>r. validate_accommodation c_level ''lump_sum'' nights actual_cost room_type False
               manual_rate ''training'' ''private'' = Inr r
      \<and> ac_rate_per_night r =
          (if c_level = ''C1-C8''
           then (if room_type = ''single'' then 1600 else 1000)
           else (if room_type = ''single'' then 2700 else 1500))
      \<and> ac_reimbursable_amount r = ac_rate_per_night r * of_int nights
      \<and> ac_is_approved r
      \<and> validate_accommodation c_level ''lump_sum'' nights actual_cost room_type False
               manual_rate' ''training'' ''private'' = Inr r"
  using assms
  by (elim insertE emptyE; simp add: validate_accommodation_def calc_training_accommodation_def
        ACCOM_TRAINING_PRIVATE_def dict_index_def dict_get_def Let_def)

theorem training_private_lump_sum_witness:
  "''C1-C8'' \<in> {''C1-C8'', ''C9-C11''} \<and> ''single'' \<in> {''single'', ''double''}
   \<and> (\<exists>r. validate_accommodation ''C1-C8'' ''lump_sum'' 3 0 ''single'' False
               500 ''training'' ''private'' = Inr r
        \<and> ac_rate_per_night r = 1600 \<and> ac_reimbursable_amount r = 4800 \<and> ac_is_approved r
        \<and> validate_accommodation ''C1-C8'' ''lump_sum'' 3 0 ''single'' False
               0 ''training'' ''private'' = Inr r)"
  using training_private_lump_sum [of "''C1-C8''" "''single''" 3 0 500 0]
  by auto

subsection \<open>Taxi route cap\<close>

text \<open>
  Claim C10. \<open>validate_taxi\<close> reimburses the smaller of the actual cost and the limit of
  the route type: 600 for \<open>cross_bkk\<close>, 500 for \<open>cross_other\<close>; for every other route
  type there is no limit and the whole actual cost is reimbursed.
\<close>

theorem validate_taxi_route_cap:
  "tx_reimbursable_amount (validate_taxi route_type actual_cost) =
     (if route_type = ''cross_bkk'' then min actual_cost 600
      else if route_type = ''cross_other'' then min actual_cost 500
      else actual_cost)"
  by (simp add: validate_taxi_def min_limit_def)

subsection \<open>Training meals\<close>

text \<open>
  Claim C8. For the two grades and the two venues and any meal and snack counts,
  \<open>calculate_training_meal_allowance\<close> returns a result: the type is "Type A" for C9-C11
  and "Type B" for C1-C8; the meal and snack rates are (400, 35) for state/Type A,
  (200, 35) for state/Type B, (700, 50) for private/Type A and (400, 50) for private/Type
  B; the meal total is count times rate, the snack total likewise, and the grand total is
  their sum. The witness is the example of the specification: C9-C11, private, 2 meals
  and 1 snack give 1400, 50 and 1450.
\<close>

theorem training_meal_allowance_table:
  assumes "c_level \<in> {''C1-C8'', ''C9-C11''}" and "venue \<in> {''state'', ''private''}"
  shows "\<exists>r. calculate_training_meal_allowance c_level venue meal_count snack_count = Inr r
      \<and> ml_training_type r = (if c_level = ''C9-C11'' then ''Type A'' else ''Type B'')
      \<and> (ml_meal_rate r, ml_snack_rate r) =
          (if venue = ''state''
           then (if c_level = ''C9-C11'' then (400, 35) else (200, 35))
           else (if c_level = ''C9-C11'' then (700, 50) else (400, 50)))
      \<and> ml_meal_total r = meal_count * ml_meal_rate r
      \<and> ml_snack_total r = snack_count * ml_snack_rate r
      \<and> ml_grand_total r = ml_meal_total r + ml_snack_total r"
  using assms
  by (elim insertE emptyE; simp add: calculate_training_meal_allowance_def TRAINING_RATES_def
        dict_index_def Let_def)

theorem training_meal_allowance_table_witness:
  "''C9-C11'' \<in> {''C1-C8'', ''C9-C11''} \<and> ''private'' \<in> {''state'', ''private''}
   \<and> (\<exists>r. calculate_training_meal_allowance ''C9-C11'' ''private'' 2 1 = Inr r
        \<and> ml_training_type r = ''Type A''
        \<and> ml_meal_total r = 1400 \<and> ml_snack_total r = 50 \<and> ml_grand_total r = 1450)"
  using training_meal_allowance_table [of "''C9-C11''" "''private''" 2 1]
  by auto

subsection \<open>Per diem\<close>







lemma per_diem_days_nonneg:
  assumes "start_time \<le> end_time"
  shows "0 \<le> pd_days_count (calculate_per_diem start_time end_time is_overnight c_level m)"
proof -
  have ts: "0 \<le> total_seconds start_time end_time"
    using assms by (simp add: total_seconds_def)
  then have "0 \<le> total_seconds start_time end_time / 86400" by simp
  then have "0 \<le> \<lfloor>total_seconds start_time end_time / 86400\<rfloor>" by simp
  then show ?thesis
    by (simp add: calculate_per_diem_def py_floordiv_def py_mod_def Let_def)
qed

lemma per_diem_rate:
  "pd_rate_per_day (calculate_per_diem s e ov c_level m) = (if c_level = ''C9-C11'' then 270 else 240)"
  by (simp add: calculate_per_diem_def PER_DIEM_RATES_def dict_get_def Let_def)

lemma per_diem_base:
  "pd_base_amount (calculate_per_diem s e ov c_level m) =
     pd_days_count (calculate_per_diem s e ov c_level m) * pd_rate_per_day (calculate_per_diem s e ov c_level m)"
  by (simp add: calculate_per_diem_def Let_def)

lemma per_diem_deduction:
  "0 \<le> m \<Longrightarrow> pd_deduction (calculate_per_diem s e ov c_level m) =
     pd_rate_per_day (calculate_per_diem s e ov c_level m) / 3 * of_int m"
  by (simp add: calculate_per_diem_def Let_def)

lemma per_diem_net:
  "pd_net_amount (calculate_per_diem s e ov c_level m) =
     (if m > 0 then max 0 (pd_base_amount (calculate_per_diem s e ov c_level m)
                            - pd_deduction (calculate_per_diem s e ov c_level m))
      else pd_base_amount (calculate_per_diem s e ov c_level m))"
  by (simp add: calculate_per_diem_def Let_def)

lemma per_diem_base_nonneg:
  assumes "s \<le> e"
  shows "0 \<le> pd_base_amount (calculate_per_diem s e ov c_level m)"
  using per_diem_days_nonneg [OF assms, of ov c_level m]
  by (simp add: per_diem_base per_diem_rate)

text \<open>
  Outside the window invariant (the end two days before the start), overnight and with no
  meal provided, line 105 is not reached and the net amount is the negative base amount.
\<close>

lemma per_diem_net_outside_window_invariant:
  "pd_net_amount (calculate_per_diem 172800000000 0 True ''C1-C8'' 0) = - 480"
  by (simp add: calculate_per_diem_def total_seconds_def py_floordiv_def py_mod_def
        PER_DIEM_RATES_def dict_get_def Let_def)

text \<open>
  Claim C4. For a travel window whose end is not before its start, every grade string and
  every number of provided meals >= 0: the daily rate is 270 for C9-C11 and 240 otherwise,
  the deduction is (rate / 3) * meals, the net amount is max(0, base - deduction), and the
  net amount is not negative. The hypothesis on the window is the invariant of the
  specification's travel window; it is used only for an overnight trip with no meal
  provided, where the source returns the base amount as it is (see
  \<open>per_diem_net_outside_window_invariant\<close>). The witness is the example of the
  specification: grade C1-C8, a day trip of 13 hours (one day, base 240) and 4 meals give
  the deduction 320 and the net amount 0.
\<close>

theorem per_diem_meal_deduction:
  assumes "start_time \<le> end_time" and "0 \<le> provided_meals"
  shows "pd_rate_per_day (calculate_per_diem start_time end_time is_overnight c_level provided_meals)
           = (if c_level = ''C9-C11'' then 270 else 240)
       \<and> pd_deduction (calculate_per_diem start_time end_time is_overnight c_level provided_meals)
           = pd_rate_per_day (calculate_per_diem start_time end_time is_overnight c_level provided_meals)
               / 3 * of_int provided_meals
       \<and> pd_net_amount (calculate_per_diem start_time end_time is_overnight c_level provided_meals)
           = max 0 (pd_base_amount (calculate_per_diem start_time end_time is_overnight c_level provided_meals)
                    - pd_deduction (calculate_per_diem start_time end_time is_overnight c_level provided_meals))
       \<and> 0 \<le> pd_net_amount (calculate_per_diem start_time end_time is_overnight c_level provided_meals)"
proof -
  let ?res = "calculate_per_diem start_time end_time is_overnight c_level provided_meals"
  have b: "0 \<le> pd_base_amount ?res" using assms(1) by (rule per_diem_base_nonneg)
  have d: "pd_deduction ?res = pd_rate_per_day ?res / 3 * of_int provided_meals"
    using assms(2) by (rule per_diem_deduction)
  have d0: "provided_meals = 0 \<Longrightarrow> pd_deduction ?res = 0" using d by simp
  have n: "pd_net_amount ?res = max 0 (pd_base_amount ?res - pd_deduction ?res)"
    using b d0 assms(2) by (cases "provided_meals > 0") (simp_all add: per_diem_net)
  show ?thesis using d n by (simp add: per_diem_rate)
qed

theorem per_diem_meal_deduction_witness:
  "(0::int) \<le> 46800000000 \<and> (0::int) \<le> 4
   \<and> pd_days_count (calculate_per_diem 0 46800000000 False ''C1-C8'' 4) = 1
   \<and> pd_base_amount (calculate_per_diem 0 46800000000 False ''C1-C8'' 4) = 240
   \<and> pd_deduction (calculate_per_diem 0 46800000000 False ''C1-C8'' 4) = 320
   \<and> pd_net_amount (calculate_per_diem 0 46800000000 False ''C1-C8'' 4) = 0"
proof -
  have dc: "pd_days_count (calculate_per_diem 0 46800000000 False ''C1-C8'' 4) = 1"
    by (simp add: calculate_per_diem_def total_seconds_def Let_def)
  have ba: "pd_base_amount (calculate_per_diem 0 46800000000 False ''C1-C8'' 4) = 240"
    by (simp add: per_diem_base dc per_diem_rate)
  show ?thesis
    using per_diem_meal_deduction [of 0 46800000000 4 False "''C1-C8''"] dc ba
    by simp
qed

subsection \<open>Taxi meter\<close>

text \<open>
  What lines 404--453 compute: the value of the local variable \<open>total_fare\<close> is the base
  fare 35, plus the ladder of the specification on the distance after the first kilometre,
  plus 3 per traffic minute, plus the surcharges; it is monotone in each input and not
  negative for a distance and traffic minutes that are not negative.
\<close>

lemma taxi_meter_total_fare_ladder:
  "snd (snd (taxi_meter_locals d t b a)) =
     35 + spec_ladder (d - 1) + of_int t * 3 + (if b then 20 else 0) + (if a then 50 else 0)"
  by (simp add: taxi_meter_locals_def spec_ladder_def spec_band_def Let_def min_def max_def)

lemma band_mono: "x \<le> y \<Longrightarrow> spec_band x lo len \<le> spec_band y lo len"
  by (simp add: spec_band_def min_def max_def)

lemma ladder_sum_mono:
  fixes a1 a2 a3 a4 a5 a6 b1 b2 b3 b4 b5 b6 :: rat
  assumes "a1 \<le> b1" "a2 \<le> b2" "a3 \<le> b3" "a4 \<le> b4" "a5 \<le> b5" "a6 \<le> b6"
  shows "13 / 2 * a1 + 7 * a2 + 8 * a3 + 17 / 2 * a4 + 9 * a5 + 21 / 2 * a6
       \<le> 13 / 2 * b1 + 7 * b2 + 8 * b3 + 17 / 2 * b4 + 9 * b5 + 21 / 2 * b6"
  using assms by linarith

lemma spec_ladder_mono:
  assumes "x \<le> y"
  shows "spec_ladder x \<le> spec_ladder y"
proof -
  have m: "max 0 (x - 79) \<le> max 0 (y - 79)"
    using assms by (simp add: max_def)
  show ?thesis
    unfolding spec_ladder_def
    by (rule ladder_sum_mono [OF band_mono band_mono band_mono band_mono band_mono m])
       (rule assms)+
qed

lemma taxi_meter_total_fare_mono:
  assumes "d \<le> d'" and "t \<le> t'" and "b \<longrightarrow> b'" and "a \<longrightarrow> a'"
  shows "snd (snd (taxi_meter_locals d t b a)) \<le> snd (snd (taxi_meter_locals d' t' b' a'))"
proof -
  have "spec_ladder (d - 1) \<le> spec_ladder (d' - 1)" using assms(1) by (simp add: spec_ladder_mono)
  moreover have "(of_int t :: rat) * 3 \<le> of_int t' * 3" using assms(2) by simp
  moreover have "(if b then 20 else 0 :: rat) \<le> (if b' then 20 else 0)" using assms(3) by simp
  moreover have "(if a then 50 else 0 :: rat) \<le> (if a' then 50 else 0)" using assms(4) by simp
  ultimately show ?thesis unfolding taxi_meter_total_fare_ladder by (intro add_mono) simp_all
qed

lemma taxi_meter_total_fare_nonneg:
  assumes "0 \<le> d" and "0 \<le> t"
  shows "0 \<le> snd (snd (taxi_meter_locals d t b a))"
proof -
  have "spec_ladder (d - 1) \<ge> 0"
    unfolding spec_ladder_def spec_band_def
    by (intro add_nonneg_nonneg mult_nonneg_nonneg max.cobounded1) simp_all
  moreover have "(0::rat) \<le> of_int t * 3" using assms(2) by simp
  ultimately show ?thesis
    unfolding taxi_meter_total_fare_ladder by simp
qed

text \<open>
  Claim C6 (the source departs from it). The claim is that \<open>calculate_taxi_meter\<close> returns
  a total fare following the ladder, 35 at distance 0 and 100.5 at 11 kilometres. At both
  inputs the source raises \<open>NameError\<close> when it builds the result, although the local
  \<open>total_fare\<close> holds 35 and 100.5 at that point.
\<close>

theorem taxi_meter_spec_examples_raise:
  "calculate_taxi_meter 0 0 False False = Inl (NameError ''fare_distance'')
   \<and> calculate_taxi_meter 11 0 False False = Inl (NameError ''fare_distance'')
   \<and> snd (snd (taxi_meter_locals 0 0 False False)) = 35
   \<and> snd (snd (taxi_meter_locals 11 0 False False)) = 201 / 2"
  by (simp add: calculate_taxi_meter_def fare_distance_def taxi_meter_locals_def Let_def)

text \<open>
  Every call raises, whatever the input. A result, if one were returned, would carry the
  local \<open>total_fare\<close> in its key \<open>"total_fare"\<close>; this second fact does not depend on the
  name \<open>fare_distance\<close> being unbound.
\<close>

lemma calculate_taxi_meter_raises:
  "calculate_taxi_meter distance_km traffic_minutes booking_fee airport_surcharge =
     Inl (NameError ''fare_distance'')"
  by (simp add: calculate_taxi_meter_def fare_distance_def split: prod.splits)

lemma calculate_taxi_meter_total_fare:
  assumes "calculate_taxi_meter d t b a = Inr r"
  shows "tm_total_fare r = snd (snd (taxi_meter_locals d t b a))"
  using assms
  by (auto simp: calculate_taxi_meter_def split: prod.splits option.splits)

text \<open>
  Claim C7. The total fare never decreases when the distance or the traffic minutes grow
  or when a surcharge flag is turned on, the other inputs staying as they are or growing
  too: this holds of the total fare that the source computes (the local \<open>total_fare\<close> of
  line 453), and of the key \<open>"total_fare"\<close> of any two results that
  \<open>calculate_taxi_meter\<close> returns. The witness takes each input in turn: the distance from
  1 to 2 kilometres, the traffic minutes from 0 to 5, the app-booking flag, the airport
  flag.
\<close>

theorem taxi_fare_monotone:
  assumes "distance_km \<le> distance_km'" and "traffic_minutes \<le> traffic_minutes'"
    and "booking_fee \<longrightarrow> booking_fee'" and "airport_surcharge \<longrightarrow> airport_surcharge'"
  shows "snd (snd (taxi_meter_locals distance_km traffic_minutes booking_fee airport_surcharge))
         \<le> snd (snd (taxi_meter_locals distance_km' traffic_minutes' booking_fee'
                        airport_surcharge'))
       \<and> (\<forall>r r'. calculate_taxi_meter distance_km traffic_minutes booking_fee
                      airport_surcharge = Inr r
                 \<and> calculate_taxi_meter distance_km' traffic_minutes' booking_fee'
                      airport_surcharge' = Inr r'
                 \<longrightarrow> tm_total_fare r \<le> tm_total_fare r')"
proof -
  have m: "snd (snd (taxi_meter_locals distance_km traffic_minutes booking_fee airport_surcharge))
         \<le> snd (snd (taxi_meter_locals distance_km' traffic_minutes' booking_fee'
                        airport_surcharge'))"
    using assms by (rule taxi_meter_total_fare_mono)
  show ?thesis
  proof (intro conjI allI impI)
    show "snd (snd (taxi_meter_locals distance_km traffic_minutes booking_fee airport_surcharge))
         \<le> snd (snd (taxi_meter_locals distance_km' traffic_minutes' booking_fee'
                        airport_surcharge'))"
      by (rule m)
  next
    fix r r'
    assume h: "calculate_taxi_meter distance_km traffic_minutes booking_fee
                      airport_surcharge = Inr r
                 \<and> calculate_taxi_meter distance_km' traffic_minutes' booking_fee'
                      airport_surcharge' = Inr r'"
    then have "tm_total_fare r = snd (snd (taxi_meter_locals distance_km traffic_minutes
                 booking_fee airport_surcharge))"
      and "tm_total_fare r' = snd (snd (taxi_meter_locals distance_km' traffic_minutes'
                 booking_fee' airport_surcharge'))"
      by (simp_all add: calculate_taxi_meter_total_fare)
    then show "tm_total_fare r \<le> tm_total_fare r'"
      using m by simp
  qed
qed

theorem taxi_fare_monotone_witness:
  "snd (snd (taxi_meter_locals 1 0 False False)) \<le> snd (snd (taxi_meter_locals 2 0 False False))
   \<and> snd (snd (taxi_meter_locals 11 0 False False)) \<le> snd (snd (taxi_meter_locals 11 5 False False))
   \<and> snd (snd (taxi_meter_locals 11 5 False False)) \<le> snd (snd (taxi_meter_locals 11 5 True False))
   \<and> snd (snd (taxi_meter_locals 11 5 False False)) \<le> snd (snd (taxi_meter_locals 11 5 False True))"
  using taxi_fare_monotone [of 1 2 0 0 False False False False]
    taxi_fare_monotone [of 11 11 0 5 False False False False]
    taxi_fare_monotone [of 11 11 5 5 False True False False]
    taxi_fare_monotone [of 11 11 5 5 False False False True]
  by simp

subsection \<open>Amounts are not negative and stay within the ceiling\<close>

lemma accommodation_bounds:
  assumes "0 \<le> nights" and "0 \<le> actual_cost" and "0 \<le> manual_rate"
  shows "\<exists>r. validate_accommodation c_level expense_type nights actual_cost room_type
               is_vehicle_sleep manual_rate trip_type training_venue = Inr r
           \<and> 0 \<le> ac_reimbursable_amount r
           \<and> (\<forall>tc. ac_total_ceiling r = Some tc \<longrightarrow> ac_reimbursable_amount r \<le> tc)
           \<and> (\<not> is_vehicle_sleep \<and> expense_type \<noteq> ''lump_sum'' \<longrightarrow> ac_total_ceiling r \<noteq> None)"
  using assms
  by (simp add: accom_defs)

lemma per_diem_net_nonneg:
  assumes "s \<le> e"
  shows "0 \<le> pd_net_amount (calculate_per_diem s e ov c_level m)"
  using per_diem_base_nonneg [OF assms, of ov c_level m]
  by (simp add: per_diem_net)

lemma meal_allowance_nonneg:
  assumes "0 \<le> meal_count" and "0 \<le> snack_count" and "venue \<in> {''state'', ''private''}"
  shows "\<exists>m. calculate_training_meal_allowance c_level venue meal_count snack_count = Inr m
           \<and> 0 \<le> ml_grand_total m"
  using assms
  by (elim insertE emptyE; simp add: calculate_training_meal_allowance_def TRAINING_RATES_def
        dict_index_def Let_def)

lemma transportation_nonneg:
  "0 \<le> distance_km \<Longrightarrow>
     0 \<le> tr_reimbursable_amount (calculate_transportation vehicle_type distance_km)"
  by (simp add: calculate_transportation_def)

lemma validate_taxi_nonneg:
  "0 \<le> cost \<Longrightarrow> 0 \<le> tx_reimbursable_amount (validate_taxi route_type cost)"
  by (simp add: validate_taxi_def min_limit_def)

text \<open>
  Claim C9. For nights, actual cost, manual rate, distance, taxi cost, meal count and snack
  count that are not negative, a window whose end is not before its start and one of the two
  venues: \<open>validate_accommodation\<close> returns a result whose reimbursable amount is not
  negative and is at most the total ceiling whenever the result has one, which every
  actual-cost branch has; the reimbursable amounts of \<open>calculate_transportation\<close> and
  \<open>validate_taxi\<close>, the net amount of \<open>calculate_per_diem\<close> and the grand total of
  \<open>calculate_training_meal_allowance\<close> are not negative.
\<close>

theorem reimbursable_amount_bounds:
  assumes "0 \<le> nights" and "0 \<le> actual_cost" and "0 \<le> manual_rate"
    and "0 \<le> distance_km" and "0 \<le> taxi_cost" and "start_time \<le> end_time"
    and "0 \<le> meal_count" and "0 \<le> snack_count" and "venue \<in> {''state'', ''private''}"
  shows "(\<exists>r. validate_accommodation c_level expense_type nights actual_cost room_type
               is_vehicle_sleep manual_rate trip_type training_venue = Inr r
           \<and> 0 \<le> ac_reimbursable_amount r
           \<and> (\<forall>tc. ac_total_ceiling r = Some tc \<longrightarrow> ac_reimbursable_amount r \<le> tc)
           \<and> (\<not> is_vehicle_sleep \<and> expense_type \<noteq> ''lump_sum'' \<longrightarrow> ac_total_ceiling r \<noteq> None))
       \<and> 0 \<le> tr_reimbursable_amount (calculate_transportation vehicle_type distance_km)
       \<and> 0 \<le> tx_reimbursable_amount (validate_taxi route_type taxi_cost)
       \<and> 0 \<le> pd_net_amount (calculate_per_diem start_time end_time is_overnight c_level
                                 provided_meals)
       \<and> (\<exists>m. calculate_training_meal_allowance c_level venue meal_count snack_count = Inr m
              \<and> 0 \<le> ml_grand_total m)"
  by (intro conjI accommodation_bounds [OF assms(1-3)] transportation_nonneg [OF assms(4)]
        validate_taxi_nonneg [OF assms(5)] per_diem_net_nonneg [OF assms(6)]
        meal_allowance_nonneg [OF assms(7-9)])

theorem reimbursable_amount_bounds_witness:
  "(\<exists>r. validate_accommodation ''C1-C8'' ''actual'' 2 3500 ''single'' False 0 ''training''
              ''private'' = Inr r
        \<and> ac_reimbursable_amount r = 3200 \<and> 0 \<le> ac_reimbursable_amount r
        \<and> ac_total_ceiling r = Some 3200)
   \<and> 0 \<le> tr_reimbursable_amount (calculate_transportation ''private_car'' 10)
   \<and> 0 \<le> tx_reimbursable_amount (validate_taxi ''cross_bkk'' 700)
   \<and> 0 \<le> pd_net_amount (calculate_per_diem 0 46800000000 False ''C1-C8'' 4)
   \<and> (\<exists>m. calculate_training_meal_allowance ''C1-C8'' ''state'' 2 1 = Inr m
          \<and> 0 \<le> ml_grand_total m)"
proof -
  have acc: "validate_accommodation ''C1-C8'' ''actual'' 2 3500 ''single'' False 0 ''training''
               ''private'' =
             Inr \<lparr> ac_type = ''actual'', ac_nights = 2, ac_rate_per_night = 1600,
                   ac_allowed_per_night = 1600, ac_total_allowed = None,
                   ac_total_ceiling = Some 3200, ac_actual_cost = Some 3500,
                   ac_reimbursable_amount = 3200, ac_is_approved = False,
                   ac_room_type = Some ''single'', ac_trip_type = ''training'',
                   ac_training_venue = Some ''private'',
                   ac_warnings = [JuniorSingleRoomNote, AttachReceiptFolio,
                                  ExceedsCeilingDetail 3500 3200],
                   ac_remark = RemarkPrivateActual ''single'' 1600 False \<rparr>"
    by (simp add: accom_defs)
  show ?thesis
    using reimbursable_amount_bounds [of 2 3500 0 10 700 0 46800000000 2 1 "''state''"
        "''C1-C8''" "''actual''" "''single''" False "''training''" "''private''"
        "''private_car''" "''cross_bkk''" False 4]
    by (simp add: acc)
qed

end
